theory Spec2Isabelle
  imports Complex_Main "HOL-Library.AList" "HOL-Library.Multiset"
begin

section \<open>The analytics aggregation of AnalyticsView.tsx\<close>

text \<open>
  The four builders of \<^verbatim>\<open>src/components/analytics/AnalyticsView.tsx\<close>
  (\<^verbatim>\<open>generateLeaderboardData\<close>, \<^verbatim>\<open>generatePerformanceData\<close>,
  \<^verbatim>\<open>generateTrendData\<close>, \<^verbatim>\<open>generateCompositionData\<close>) are embedded as
  HOL functions over the list of fetched reports.

  Conventions of the embedding:
  \<^item> a JavaScript number is an exact rational (\<^typ>\<open>rat\<close>): sums and quotients are
    computed without the rounding error of IEEE doubles;
  \<^item> \<^verbatim>\<open>null\<close>/\<^verbatim>\<open>undefined\<close> is \<^const>\<open>None\<close>;
  \<^item> a plain object used as a dictionary is the list of its own properties in creation
    order; \<^verbatim>\<open>Object.entries\<close> enumerates it in the order of the language: keys that
    are array indices first, in ascending numeric order, then the other keys in creation
    order. Keys are taken not to shadow a member inherited from \<^verbatim>\<open>Object.prototype\<close>;
  \<^item> \<^verbatim>\<open>Math.random\<close> is a parameter: the sequence of values it returns during a call;
  \<^item> the abbreviated month names of the \<^verbatim>\<open>id-ID\<close> locale come from the runtime and are
    a parameter of the trend builder;
  \<^item> the React state setters are writes to a record of the four state variables.
\<close>

subsection \<open>Input records\<close>

text \<open>The joined \<^verbatim>\<open>profiles\<close> row of a report: \<^verbatim>\<open>profiles!reports_user_id_fkey(full_name, sbu_name)\<close>.\<close>

record profile =
  full_name :: "string option"
  sbu_name :: "string option"

text \<open>
  \<^verbatim>\<open>new Date(report.created_at)\<close>: only the local calendar year and the month
  (\<^verbatim>\<open>getMonth()\<close>, counted from 0) matter to the builders. The timestamp of a stored
  report is a valid date.
\<close>

record js_date =
  getFullYear :: int
  getMonth :: nat

record report =
  report_id :: string
  status :: string
  calculated_score :: "rat option"
  indicator_type :: "string option"
  created_at :: js_date
  approved_at :: "js_date option"
  profiles :: "profile option"

subsection \<open>JavaScript primitives\<close>

text \<open>\<^verbatim>\<open>!s\<close> on an optional string: true for \<^verbatim>\<open>null\<close>, \<^verbatim>\<open>undefined\<close> and the empty string.\<close>

definition falsy_string :: "string option \<Rightarrow> bool" where
  "falsy_string s = (case s of None \<Rightarrow> True | Some t \<Rightarrow> t = [])"

text \<open>\<^verbatim>\<open>!x\<close> on an optional number: true for \<^verbatim>\<open>null\<close>, \<^verbatim>\<open>undefined\<close> and \<^verbatim>\<open>0\<close>.\<close>

definition falsy_number :: "rat option \<Rightarrow> bool" where
  "falsy_number x = (case x of None \<Rightarrow> True | Some v \<Rightarrow> v = 0)"

text \<open>\<^verbatim>\<open>Math.round\<close>: the nearest integer, a half rounded towards \<open>+\<infinity>\<close>.\<close>

definition Math_round :: "rat \<Rightarrow> rat" where
  "Math_round x = of_int \<lfloor>x + 1 / 2\<rfloor>"

text \<open>Decimal digits of a natural number, as \<^verbatim>\<open>String(n)\<close> prints them.\<close>

definition digit_char :: "nat \<Rightarrow> char" where
  "digit_char d = char_of (48 + d)"

fun string_of_nat :: "nat \<Rightarrow> string" where
  "string_of_nat n =
     (if n < 10 then [digit_char n] else string_of_nat (n div 10) @ [digit_char (n mod 10)])"

declare string_of_nat.simps [simp del]

text \<open>
  \<^verbatim>\<open>x.toFixed(1)\<close>: with \<open>n\<close> the integer for which \<open>n / 10\<close> is nearest to \<open>\<bar>x\<bar>\<close> (the
  larger one of two), the digits of \<open>n\<close> with a point before the last one, and a minus
  sign when \<open>x < 0\<close>. (From \<open>10\<^sup>2\<^sup>1\<close> on JavaScript prints an exponent instead; scores and
  the mock change are far below.)
\<close>

definition fixed_tenths :: "rat \<Rightarrow> nat" where
  "fixed_tenths x = nat \<lfloor>\<bar>x\<bar> * 10 + 1 / 2\<rfloor>"

definition toFixed1 :: "rat \<Rightarrow> string" where
  "toFixed1 x =
     (if x < 0 then ''-'' else '''') @
     string_of_nat (fixed_tenths x div 10) @ ''.'' @ string_of_nat (fixed_tenths x mod 10)"

text \<open>\<^verbatim>\<open>Number(x.toFixed(1))\<close>: the number that string denotes.\<close>

definition Number_toFixed1 :: "rat \<Rightarrow> rat" where
  "Number_toFixed1 x =
     (if x < 0 then - (of_nat (fixed_tenths x) / 10) else of_nat (fixed_tenths x) / 10)"

subsection \<open>Plain objects as dictionaries\<close>

type_synonym 'v obj = "(string \<times> 'v) list"

text \<open>\<^verbatim>\<open>ob[k] = v\<close>: overwrite the property where it stands, or create it last.\<close>

primrec obj_set :: "string \<Rightarrow> 'v \<Rightarrow> 'v obj \<Rightarrow> 'v obj" where
  "obj_set k v [] = [(k, v)]"
| "obj_set k v (p # ps) = (if fst p = k then (k, v) # ps else p # obj_set k v ps)"

text \<open>Reading \<^verbatim>\<open>ob[k]\<close> is \<^term>\<open>map_of ob k\<close>.\<close>

definition is_digit :: "char \<Rightarrow> bool" where
  "is_digit c = (c \<in> set ''0123456789'')"

text \<open>The number a string of decimal digits denotes.\<close>

definition index_value :: "string \<Rightarrow> int" where
  "index_value s = foldl (\<lambda>n c. 10 * n + (of_char c - 48)) 0 s"

text \<open>
  An array index is the canonical decimal string of an integer from \<open>0\<close> to \<open>2\<^sup>3\<^sup>2 - 2\<close>.
\<close>

definition is_array_index :: "string \<Rightarrow> bool" where
  "is_array_index s =
     (if s \<noteq> [] \<and> list_all is_digit s \<and> (s = ''0'' \<or> hd s \<noteq> CHR ''0'')
      then index_value s < 4294967295 else False)"

text \<open>The order in which the own keys \<open>ks\<close> (given in creation order) are enumerated.\<close>

definition own_key_order :: "string list \<Rightarrow> string list" where
  "own_key_order ks =
     sort_key index_value (filter is_array_index ks) @
     filter (\<lambda>k. \<not> is_array_index k) ks"

definition Object_entries :: "'v obj \<Rightarrow> (string \<times> 'v) list" where
  "Object_entries ob =
     sort_key (\<lambda>p. index_value (fst p)) (filter (\<lambda>p. is_array_index (fst p)) ob) @
     filter (\<lambda>p. \<not> is_array_index (fst p)) ob"

subsection \<open>generateLeaderboardData\<close>

text \<open>\<^verbatim>\<open>report.profiles?.sbu_name\<close>\<close>

definition sbuName_of :: "report \<Rightarrow> string option" where
  "sbuName_of r = (case profiles r of None \<Rightarrow> None | Some p \<Rightarrow> sbu_name p)"

text \<open>An entry of \<^verbatim>\<open>sbuScores\<close>.\<close>

record sbu_data =
  scores :: "rat list"
  totalReports :: nat

text \<open>
  The body of \<^verbatim>\<open>reports.forEach\<close>: a report without a unit name or with a falsy score
  is skipped; otherwise its score is pushed on the entry of its unit, created on first use.
\<close>

definition leaderboard_step :: "report \<Rightarrow> sbu_data obj \<Rightarrow> sbu_data obj" where
  "leaderboard_step r sbuScores =
     (if falsy_string (sbuName_of r) \<or> falsy_number (calculated_score r) then sbuScores
      else case (sbuName_of r, calculated_score r) of
        (Some sbuName, Some sc) \<Rightarrow>
          let d = (case map_of sbuScores sbuName of
                     None \<Rightarrow> \<lparr>scores = [], totalReports = 0\<rparr>
                   | Some d0 \<Rightarrow> d0)
          in obj_set sbuName (d\<lparr>scores := scores d @ [sc], totalReports := totalReports d + 1\<rparr>)
               sbuScores
      | _ \<Rightarrow> sbuScores)"

text \<open>
  The first \<^verbatim>\<open>.map\<close> over \<^verbatim>\<open>Object.entries(sbuScores)\<close> makes an item of each entry; its
  callback calls \<^verbatim>\<open>Math.random\<close> once, so the entry at position \<open>i\<close> gets the \<open>i\<close>-th value
  \<open>random i\<close>. The division is the one of the source; the list of scores of an entry is
  never empty.
\<close>

record item =
  item_sbu :: string
  item_score :: rat
  item_totalReports :: nat
  item_change :: rat

record leaderboard_row =
  rank :: nat
  sbu :: string
  score :: rat
  change :: string

definition leaderboard_items :: "(nat \<Rightarrow> rat) \<Rightarrow> sbu_data obj \<Rightarrow> item list" where
  "leaderboard_items random sbuScores =
     map (\<lambda>(i, (s, d)).
            \<lparr>item_sbu = s,
             item_score = sum_list (scores d) / of_nat (length (scores d)),
             item_totalReports = totalReports d,
             item_change = (random i - 1 / 2) * 5\<rparr>)
         (enumerate 0 (Object_entries sbuScores))"

text \<open>
  \<^verbatim>\<open>.sort((a, b) => b.score - a.score)\<close> is a stable sort by descending score, and the
  second \<^verbatim>\<open>.map\<close> turns the item at position \<open>index\<close> into the row of rank \<open>index + 1\<close>,
  which keeps \<^verbatim>\<open>sbu\<close>, the rounded score and the formatted change, and drops
  \<^verbatim>\<open>totalReports\<close>.
\<close>

definition leaderboard :: "(nat \<Rightarrow> rat) \<Rightarrow> report list \<Rightarrow> leaderboard_row list" where
  "leaderboard random reports =
     map (\<lambda>(index, it).
            \<lparr>rank = index + 1,
             sbu = item_sbu it,
             score = Number_toFixed1 (item_score it),
             change = (if item_change it > 0 then ''+'' @ toFixed1 (item_change it)
                       else toFixed1 (item_change it))\<rparr>)
         (enumerate 0
            (sort_key (\<lambda>it. - item_score it)
               (leaderboard_items random (fold leaderboard_step reports []))))"

subsection \<open>generatePerformanceData\<close>

text \<open>
  The body of \<^verbatim>\<open>reports.forEach\<close>: a report without a unit name, without an indicator or
  with a falsy score is skipped; otherwise its score is pushed on the list of its unit in
  the entry of its indicator, both created on first use.
\<close>

definition performance_step :: "report \<Rightarrow> rat list obj obj \<Rightarrow> rat list obj obj" where
  "performance_step r indicatorPerformance =
     (if falsy_string (sbuName_of r) \<or> falsy_string (indicator_type r)
         \<or> falsy_number (calculated_score r)
      then indicatorPerformance
      else case (sbuName_of r, indicator_type r, calculated_score r) of
        (Some sbuName, Some indicator, Some sc) \<Rightarrow>
          let sbuData = (case map_of indicatorPerformance indicator of
                           None \<Rightarrow> [] | Some d \<Rightarrow> d);
              l = (case map_of sbuData sbuName of None \<Rightarrow> [] | Some l0 \<Rightarrow> l0)
          in obj_set indicator (obj_set sbuName (l @ [sc]) sbuData) indicatorPerformance
      | _ \<Rightarrow> indicatorPerformance)"

datatype js_value = Str string | Num rat

text \<open>
  One row of the comparison: the object \<^verbatim>\<open>result\<close>, which starts as
  \<^verbatim>\<open>{ indicator }\<close>, gets one property per unit and \<^verbatim>\<open>rata_rata\<close> last.
\<close>

definition comparison_cells ::
  "rat list obj \<Rightarrow> js_value obj \<times> rat list \<Rightarrow> js_value obj \<times> rat list" where
  "comparison_cells sbuData start =
     fold (\<lambda>(s, l) (result, totalScores).
             (obj_set s (Num (Math_round (sum_list l / of_nat (length l)))) result,
              totalScores @ l))
          (Object_entries sbuData) start"

definition comparison_row :: "string \<times> rat list obj \<Rightarrow> js_value obj" where
  "comparison_row e =
     (case e of (indicator, sbuData) \<Rightarrow>
        (case comparison_cells sbuData ([(''indicator'', Str indicator)], []) of
           (result, totalScores) \<Rightarrow>
             obj_set ''rata_rata''
               (Num (if length totalScores > 0
                     then Math_round (sum_list totalScores / of_nat (length totalScores))
                     else 0))
               result))"

definition comparisonData :: "report list \<Rightarrow> js_value obj list" where
  "comparisonData reports =
     map comparison_row (Object_entries (fold performance_step reports []))"

subsection \<open>generateTrendData\<close>

text \<open>An entry of \<^verbatim>\<open>monthlyData\<close>, and a point of the trend.\<close>

record monthly =
  total_n :: nat
  approved_n :: nat
  rejected_n :: nat

record trend_row =
  month :: string
  total_laporan :: nat
  approved :: nat
  rejected :: nat

text \<open>
  \<^verbatim>\<open>date.toLocaleDateString('id-ID', { month: 'short' })\<close> with the table \<open>monthShort\<close>
  of abbreviated month names.
\<close>

definition monthKey_of :: "(nat \<Rightarrow> string) \<Rightarrow> report \<Rightarrow> string" where
  "monthKey_of monthShort r = monthShort (getMonth (created_at r))"

text \<open>The body of \<^verbatim>\<open>reports.forEach\<close>: every report counts in the entry of its month.\<close>

definition trend_step :: "(nat \<Rightarrow> string) \<Rightarrow> report \<Rightarrow> monthly obj \<Rightarrow> monthly obj" where
  "trend_step monthShort r monthlyData =
     (let monthKey = monthKey_of monthShort r;
          d = (case map_of monthlyData monthKey of
                 None \<Rightarrow> \<lparr>total_n = 0, approved_n = 0, rejected_n = 0\<rparr>
               | Some d0 \<Rightarrow> d0);
          d1 = d\<lparr>total_n := total_n d + 1\<rparr>;
          d2 = (if status r = ''approved'' \<or> status r = ''completed''
                then d1\<lparr>approved_n := approved_n d1 + 1\<rparr>
                else if status r = ''rejected'' \<or> status r = ''system_rejected''
                then d1\<lparr>rejected_n := rejected_n d1 + 1\<rparr>
                else d1)
      in obj_set monthKey d2 monthlyData)"

definition trendArray :: "(nat \<Rightarrow> string) \<Rightarrow> report list \<Rightarrow> trend_row list" where
  "trendArray monthShort reports =
     map (\<lambda>(m, d). \<lparr>month = m, total_laporan = total_n d,
                    approved = approved_n d, rejected = rejected_n d\<rparr>)
         (Object_entries (fold (trend_step monthShort) reports []))"

subsection \<open>generateCompositionData\<close>

record slice =
  name :: string
  slice_value :: nat
  color :: string

definition colors :: "string list" where
  "colors = [''hsl(var(--primary))'', ''hsl(var(--secondary))'', ''hsl(var(--accent))'',
             ''hsl(var(--desmon-primary))'', ''hsl(var(--desmon-secondary))'']"

text \<open>\<^verbatim>\<open>report.indicator_type || 'Unknown'\<close>\<close>

definition indicator_or_unknown :: "report \<Rightarrow> string" where
  "indicator_or_unknown r =
     (if falsy_string (indicator_type r) then ''Unknown''
      else case indicator_type r of Some s \<Rightarrow> s | None \<Rightarrow> ''Unknown'')"

text \<open>
  \<^verbatim>\<open>indicatorCounts[indicator] = (indicatorCounts[indicator] || 0) + 1\<close>: a stored count
  is never \<open>0\<close>, so \<^verbatim>\<open>|| 0\<close> only stands in for a missing entry.
\<close>

definition composition_step :: "report \<Rightarrow> nat obj \<Rightarrow> nat obj" where
  "composition_step r indicatorCounts =
     (let indicator = indicator_or_unknown r
      in obj_set indicator
           ((case map_of indicatorCounts indicator of None \<Rightarrow> 0 | Some c \<Rightarrow> c) + 1)
           indicatorCounts)"

definition compositionArray :: "report list \<Rightarrow> slice list" where
  "compositionArray reports =
     map (\<lambda>(index, (n, v)).
            \<lparr>name = n, slice_value = v, color = colors ! (index mod length colors)\<rparr>)
         (enumerate 0 (Object_entries (fold composition_step reports [])))"

subsection \<open>The component state and the four builders\<close>

text \<open>
  The four state variables of the component. Each builder ends with the call of one
  setter, which replaces the value of its variable.
\<close>

record analytics_state =
  leaderboardData :: "leaderboard_row list"
  performanceComparisonData :: "js_value obj list"
  trendData :: "trend_row list"
  activityCompositionData :: "slice list"

definition generateLeaderboardData ::
  "(nat \<Rightarrow> rat) \<Rightarrow> report list \<Rightarrow> analytics_state \<Rightarrow> analytics_state" where
  "generateLeaderboardData random reports st = st\<lparr>leaderboardData := leaderboard random reports\<rparr>"

definition generatePerformanceData :: "report list \<Rightarrow> analytics_state \<Rightarrow> analytics_state" where
  "generatePerformanceData reports st = st\<lparr>performanceComparisonData := comparisonData reports\<rparr>"

definition generateTrendData ::
  "(nat \<Rightarrow> string) \<Rightarrow> report list \<Rightarrow> analytics_state \<Rightarrow> analytics_state" where
  "generateTrendData monthShort reports st = st\<lparr>trendData := trendArray monthShort reports\<rparr>"

definition generateCompositionData :: "report list \<Rightarrow> analytics_state \<Rightarrow> analytics_state" where
  "generateCompositionData reports st = st\<lparr>activityCompositionData := compositionArray reports\<rparr>"

section \<open>Notions for the statements\<close>

subsection \<open>Grouping by a key, as the four loops do it\<close>

text \<open>
  The keys of a list in the order of their first occurrence, and the common shape of the
  four \<^verbatim>\<open>forEach\<close> loops: a record with a key updates the entry of that key, which
  starts from \<open>init\<close>. Both serve to state and to prove what the loops compute; so does
  the mean of a list of numbers.
\<close>

definition first_seen :: "'a list \<Rightarrow> 'a list" where
  "first_seen xs = rev (remdups (rev xs))"

definition group_step ::
  "('a \<Rightarrow> string option) \<Rightarrow> 'v \<Rightarrow> ('a \<Rightarrow> 'v \<Rightarrow> 'v) \<Rightarrow> 'a \<Rightarrow> 'v obj \<Rightarrow> 'v obj" where
  "group_step key init add r ob =
     (case key r of
        None \<Rightarrow> ob
      | Some k \<Rightarrow> obj_set k (add r (case map_of ob k of None \<Rightarrow> init | Some v \<Rightarrow> v)) ob)"

definition grouped ::
  "('a \<Rightarrow> string option) \<Rightarrow> 'v \<Rightarrow> ('a \<Rightarrow> 'v \<Rightarrow> 'v) \<Rightarrow> 'a list \<Rightarrow> 'v obj" where
  "grouped key init add rs = fold (group_step key init add) rs []"


subsection \<open>The leaderboard loop as a grouping\<close>

text \<open>
  The unit under which the leaderboard loop counts a report (none when the guard
  \<^verbatim>\<open>!sbuName || !report.calculated_score\<close> skips it), what the loop does to the entry
  of that unit, the scores it collects for a unit and the units in the order of
  \<^verbatim>\<open>Object.entries(sbuScores)\<close>.
\<close>

definition counted_unit :: "report \<Rightarrow> string option" where
  "counted_unit r =
     (if falsy_string (sbuName_of r) \<or> falsy_number (calculated_score r) then None
      else sbuName_of r)"


definition counted_scores :: "report list \<Rightarrow> string \<Rightarrow> rat list" where
  "counted_scores rs u =
     List.map_filter calculated_score (filter (\<lambda>r. counted_unit r = Some u) rs)"

definition counted_units :: "report list \<Rightarrow> string list" where
  "counted_units rs = own_key_order (first_seen (List.map_filter counted_unit rs))"

subsection \<open>The comparison loop as a nested grouping\<close>









subsection \<open>The trend loop as a grouping\<close>

text \<open>What one report does to the entry of its month in \<^verbatim>\<open>monthlyData\<close>.\<close>

definition trend_add :: "report \<Rightarrow> monthly \<Rightarrow> monthly" where
  "trend_add r d =
     (let d1 = d\<lparr>total_n := total_n d + 1\<rparr>
      in if status r = ''approved'' \<or> status r = ''completed''
         then d1\<lparr>approved_n := approved_n d1 + 1\<rparr>
         else if status r = ''rejected'' \<or> status r = ''system_rejected''
         then d1\<lparr>rejected_n := rejected_n d1 + 1\<rparr>
         else d1)"

subsection \<open>Scored records\<close>










subsection \<open>Concrete inputs\<close>

text \<open>A report with the given unit, indicator, score, status, year and month.\<close>

definition report_of ::
  "string option \<Rightarrow> string option \<Rightarrow> rat option \<Rightarrow> string \<Rightarrow> int \<Rightarrow> nat \<Rightarrow> report" where
  "report_of unit indicator sc st y m =
     \<lparr>report_id = [], status = st, calculated_score = sc, indicator_type = indicator,
      created_at = \<lparr>getFullYear = y, getMonth = m\<rparr>, approved_at = None,
      profiles = Some \<lparr>full_name = None, sbu_name = unit\<rparr>\<rparr>"

text \<open>The state after \<^verbatim>\<open>useState([])\<close> for each of the four variables.\<close>

definition initial_state :: analytics_state where
  "initial_state = \<lparr>leaderboardData = [], performanceComparisonData = [], trendData = [],
     activityCompositionData = []\<rparr>"

text \<open>A table of abbreviated Indonesian month names.\<close>

definition month_short_id :: "nat \<Rightarrow> string" where
  "month_short_id m =
     [''Jan'', ''Feb'', ''Mar'', ''Apr'', ''Mei'', ''Jun'',
      ''Jul'', ''Agu'', ''Sep'', ''Okt'', ''Nov'', ''Des''] ! (m mod 12)"


definition trend_example :: "report list" where
  "trend_example =
     [report_of (Some ''SBU Jawa Barat'') (Some ''siaran-pers'') (Some 80) ''approved'' 2024 2,
      report_of (Some ''SBU Jawa Timur'') (Some ''publikasi'') None ''queued'' 2024 0,
      report_of (Some ''SBU Jawa Barat'') (Some ''media-sosial'') None ''system_rejected'' 2023 2,
      report_of (Some ''SBU DKI Jakarta'') (Some ''publikasi'') (Some 70) ''completed'' 2023 0]"



definition zero_score_example :: "report list" where
  "zero_score_example =
     [report_of (Some ''SBU Jawa Barat'') (Some ''siaran-pers'') (Some 0) ''completed'' 2024 0,
      report_of (Some ''SBU Jawa Barat'') (Some ''siaran-pers'') (Some 100) ''completed'' 2024 0]"








section \<open>Properties of the dictionary model\<close>

lemma obj_set_update: "obj_set k v ob = AList.update k v ob"
  by (induction ob) auto

lemma first_seen_Nil: "first_seen [] = []"
  by (simp add: first_seen_def)

lemma first_seen_snoc:
  "first_seen (xs @ [x]) = (if x \<in> set xs then first_seen xs else first_seen xs @ [x])"
  by (simp add: first_seen_def)

lemma first_seen_example:
  "first_seen [''Mar'', ''Jan'', ''Mar'', ''Feb'', ''Jan''] = [''Mar'', ''Jan'', ''Feb'']"
  by (simp add: first_seen_def)

lemma set_first_seen: "set (first_seen xs) = set xs"
  by (simp add: first_seen_def)

lemma distinct_first_seen: "distinct (first_seen xs)"
  by (simp add: first_seen_def)

lemma grouped_Nil: "grouped key init add [] = []"
  by (simp add: grouped_def)

lemma grouped_snoc:
  "grouped key init add (rs @ [r]) = group_step key init add r (grouped key init add rs)"
  by (simp add: grouped_def)

lemma map_filter_snoc:
  "List.map_filter f (xs @ [x]) =
     (case f x of None \<Rightarrow> List.map_filter f xs | Some y \<Rightarrow> List.map_filter f xs @ [y])"
  by (simp add: List.map_filter_def split: option.splits)

lemma set_map_filter: "set (List.map_filter f xs) = {y. \<exists>x\<in>set xs. f x = Some y}"
  by (force simp: List.map_filter_def image_iff)

lemma grouped_keys:
  "map fst (grouped key init add rs) = first_seen (List.map_filter key rs)"
proof (induction rs rule: rev_induct)
  case Nil
  show ?case by (simp add: List.map_filter_def grouped_Nil first_seen_Nil)
next
  case (snoc r rs)
  show ?case
  proof (cases "key r")
    case None
    with snoc show ?thesis
      by (simp add: grouped_snoc group_step_def map_filter_snoc)
  next
    case (Some k)
    with snoc show ?thesis
      by (simp add: grouped_snoc group_step_def map_filter_snoc obj_set_update
          update_keys first_seen_snoc set_first_seen)
  qed
qed

lemma grouped_distinct: "distinct (map fst (grouped key init add rs))"
  by (simp add: grouped_keys distinct_first_seen)


lemma grouped_lookup:
  "map_of (grouped key init add rs) k =
     (if \<exists>r\<in>set rs. key r = Some k
      then Some (fold add (filter (\<lambda>r. key r = Some k) rs) init)
      else None)"
proof (induction rs rule: rev_induct)
  case Nil
  show ?case by (simp add: grouped_Nil)
next
  case (snoc r rs)
  show ?case
  proof (cases "key r")
    case None
    with snoc show ?thesis
      by (auto simp: grouped_snoc group_step_def)
  next
    case (Some k')
    with snoc show ?thesis
      by (auto simp: grouped_snoc group_step_def obj_set_update update_conv')
  qed
qed

lemma sum_list_update_absent:
  fixes f :: "string \<times> 'v \<Rightarrow> 'n::comm_monoid_add"
  shows "map_of ob k = None \<Longrightarrow>
    sum_list (map f (AList.update k v ob)) = sum_list (map f ob) + f (k, v)"
  by (induction ob) (auto simp: add.assoc split: if_splits)

lemma sum_list_update_present:
  fixes f :: "string \<times> 'v \<Rightarrow> 'n::comm_monoid_add"
  shows "map_of ob k = Some old \<Longrightarrow>
    sum_list (map f (AList.update k v ob)) + f (k, old) = sum_list (map f ob) + f (k, v)"
  by (induction ob) (auto simp: ac_simps split: if_splits)

lemma grouped_sum:
  fixes mu :: "'v \<Rightarrow> 'n::cancel_comm_monoid_add"
  assumes add: "\<And>r v. mu (add r v) = mu v + w r" and init: "mu init = 0"
  shows "sum_list (map (\<lambda>p. mu (snd p)) (grouped key init add rs)) =
         sum_list (map w (filter (\<lambda>r. key r \<noteq> None) rs))"
proof (induction rs rule: rev_induct)
  case Nil
  show ?case by (simp add: grouped_Nil)
next
  case (snoc r rs)
  let ?g = "grouped key init add rs"
  show ?case
  proof (cases "key r")
    case None
    with snoc show ?thesis
      by (simp add: grouped_snoc group_step_def)
  next
    case (Some k)
    show ?thesis
    proof (cases "map_of ?g k")
      case None
      from sum_list_update_absent [OF None, of "\<lambda>p. mu (snd p)"] snoc Some None
      show ?thesis
        by (simp add: grouped_snoc group_step_def obj_set_update add init)
    next
      case (Some old)
      from sum_list_update_present [OF Some, of "\<lambda>p. mu (snd p)" "add r old"]
      have "sum_list (map (\<lambda>p. mu (snd p)) (AList.update k (add r old) ?g)) + mu old =
            sum_list (map (\<lambda>p. mu (snd p)) ?g) + (mu old + w r)"
        by (simp add: add)
      then have "sum_list (map (\<lambda>p. mu (snd p)) (AList.update k (add r old) ?g)) + mu old =
            (sum_list (map (\<lambda>p. mu (snd p)) ?g) + w r) + mu old"
        by (simp only: ac_simps)
      then have "sum_list (map (\<lambda>p. mu (snd p)) (AList.update k (add r old) ?g)) =
            sum_list (map (\<lambda>p. mu (snd p)) ?g) + w r"
        by (simp only: add_right_cancel)
      with snoc \<open>key r = Some k\<close> Some show ?thesis
        by (simp add: grouped_snoc group_step_def obj_set_update)
    qed
  qed
qed

lemma map_insort_key_fst:
  "map fst (insort_key (\<lambda>p. g (fst p)) x xs) = insort_key g (fst x) (map fst xs)"
  by (induction xs) auto

lemma map_sort_key_fst:
  "map fst (sort_key (\<lambda>p. g (fst p)) xs) = sort_key g (map fst xs)"
  by (induction xs) (auto simp: map_insort_key_fst)

lemma map_fst_Object_entries: "map fst (Object_entries ob) = own_key_order (map fst ob)"
  by (simp add: Object_entries_def own_key_order_def map_sort_key_fst filter_map o_def)

lemma mset_Object_entries: "mset (Object_entries ob) = mset ob"
  by (simp add: Object_entries_def)

lemma set_Object_entries: "set (Object_entries ob) = set ob"
  by (auto simp: Object_entries_def)

lemma set_own_key_order: "set (own_key_order ks) = set ks"
  by (auto simp: own_key_order_def)


lemma own_key_order_plain:
  "list_all (\<lambda>k. \<not> is_array_index k) ks \<Longrightarrow> own_key_order ks = ks"
  by (simp add: own_key_order_def list_all_iff)



lemma sum_list_Object_entries:
  fixes f :: "string \<times> 'v \<Rightarrow> 'n::comm_monoid_add"
  shows "sum_list (map f (Object_entries ob)) = sum_list (map f ob)"
proof -
  have "mset (map f (Object_entries ob)) = mset (map f ob)"
    by (simp add: mset_Object_entries)
  then show ?thesis
    by (metis sum_mset_sum_list)
qed

lemma Object_entries_grouped:
  "Object_entries (grouped key init add rs) =
     map (\<lambda>k. (k, fold add (filter (\<lambda>r. key r = Some k) rs) init))
         (own_key_order (first_seen (List.map_filter key rs)))"
proof -
  let ?g = "grouped key init add rs"
  let ?F = "\<lambda>k. fold add (filter (\<lambda>r. key r = Some k) rs) init"
  have val: "snd p = ?F (fst p)" if "p \<in> set (Object_entries ?g)" for p
  proof -
    from that have "p \<in> set ?g" by (simp add: set_Object_entries)
    then have "map_of ?g (fst p) = Some (snd p)"
      by (simp add: grouped_distinct)
    then show ?thesis
      by (simp add: grouped_lookup split: if_splits)
  qed
  have "map (\<lambda>p. (fst p, ?F (fst p))) (Object_entries ?g) = Object_entries ?g"
    by (rule map_idI) (simp add: val [symmetric])
  then have "Object_entries ?g = map (\<lambda>k. (k, ?F k)) (map fst (Object_entries ?g))"
    by (simp add: o_def)
  then show ?thesis
    by (simp only: map_fst_Object_entries grouped_keys)
qed





section \<open>The composition builder\<close>




lemma map_filter_Some: "List.map_filter (\<lambda>x. Some (f x)) xs = map f xs"
  by (simp add: List.map_filter_def o_def)







lemma filter_distinct_map_one:
  "distinct (map f xs) \<Longrightarrow> a \<in> set (map f xs) \<Longrightarrow> length (filter (\<lambda>x. f x = a) xs) = 1"
proof (induction xs)
  case Nil
  then show ?case by simp
next
  case (Cons x xs)
  show ?case
  proof (cases "f x = a")
    case True
    with Cons.prems have "a \<notin> f ` set xs"
      by auto
    then have "filter (\<lambda>y. f y = a) xs = []"
      by (auto simp: filter_empty_conv)
    with True show ?thesis by simp
  next
    case False
    with Cons show ?thesis by auto
  qed
qed




section \<open>The empty collection\<close>

text \<open>
  Claim C9. On the empty collection each of the four builders stores the empty list. The
  builders are total functions: no step of theirs can fail on any input.
\<close>

theorem empty_input_gives_empty_outputs:
  "leaderboardData (generateLeaderboardData random [] st) = []
   \<and> performanceComparisonData (generatePerformanceData [] st) = []
   \<and> trendData (generateTrendData monthShort [] st) = []
   \<and> activityCompositionData (generateCompositionData [] st) = []"
  by (simp add: generateLeaderboardData_def generatePerformanceData_def generateTrendData_def
      generateCompositionData_def leaderboard_def leaderboard_items_def comparisonData_def
      trendArray_def compositionArray_def Object_entries_def)

section \<open>The trend builder\<close>

lemma trend_step_group:
  "trend_step monthShort =
     group_step (\<lambda>r. Some (monthKey_of monthShort r))
       \<lparr>total_n = 0, approved_n = 0, rejected_n = 0\<rparr> trend_add"
  by (rule ext, rule ext) (simp add: trend_step_def group_step_def trend_add_def Let_def)

lemma fold_trend_add:
  "fold trend_add xs d =
     \<lparr>total_n = total_n d + length xs,
      approved_n = approved_n d +
        length (filter (\<lambda>r. status r = ''approved'' \<or> status r = ''completed'') xs),
      rejected_n = rejected_n d +
        length (filter (\<lambda>r. status r = ''rejected'' \<or> status r = ''system_rejected'') xs)\<rparr>"
  by (induction xs arbitrary: d) (auto simp: trend_add_def Let_def)

lemma trend_entries:
  "Object_entries (fold (trend_step monthShort) rs []) =
     map (\<lambda>k. (k, fold trend_add (filter (\<lambda>r. monthKey_of monthShort r = k) rs)
                    \<lparr>total_n = 0, approved_n = 0, rejected_n = 0\<rparr>))
         (own_key_order (first_seen (map (monthKey_of monthShort) rs)))"
  unfolding trend_step_group grouped_def [symmetric]
  by (simp add: Object_entries_grouped map_filter_Some)

lemma trendArray_eq:
  "trendArray monthShort rs =
     map (\<lambda>k. \<lparr>month = k,
                total_laporan = length (filter (\<lambda>r. monthKey_of monthShort r = k) rs),
                approved = length (filter (\<lambda>r. monthKey_of monthShort r = k \<and>
                    (status r = ''approved'' \<or> status r = ''completed'')) rs),
                rejected = length (filter (\<lambda>r. monthKey_of monthShort r = k \<and>
                    (status r = ''rejected'' \<or> status r = ''system_rejected'')) rs)\<rparr>)
         (own_key_order (first_seen (map (monthKey_of monthShort) rs)))"
  by (simp add: trendArray_def trend_entries fold_trend_add o_def conj_commute)

lemma trend_total_sum:
  "sum_list (map total_laporan (trendArray monthShort rs)) = length rs"
proof -
  let ?g = "grouped (\<lambda>r. Some (monthKey_of monthShort r))
              \<lparr>total_n = 0, approved_n = 0, rejected_n = 0\<rparr> trend_add rs"
  have "sum_list (map (\<lambda>p. total_n (snd p)) ?g) =
        sum_list (map (\<lambda>r. 1::nat) (filter (\<lambda>r. Some (monthKey_of monthShort r) \<noteq> None) rs))"
    by (rule grouped_sum) (simp_all add: trend_add_def Let_def)
  then have "sum_list (map (\<lambda>p. total_n (snd p)) ?g) = length rs"
    by (simp add: sum_list_triv)
  moreover have "map total_laporan (trendArray monthShort rs) =
        map (\<lambda>p. total_n (snd p)) (Object_entries ?g)"
    by (simp add: trendArray_def trend_step_group grouped_def o_def split_def)
  ultimately show ?thesis
    using sum_list_Object_entries [of "\<lambda>p. total_n (snd p)" ?g] by simp
qed

lemma trendArray_years:
  "trendArray monthShort (map (created_at_update (getFullYear_update f)) rs) =
   trendArray monthShort rs"
proof -
  have "fold (trend_step monthShort) (map (created_at_update (getFullYear_update f)) rs) ob =
        fold (trend_step monthShort) rs ob" for ob
    by (induction rs arbitrary: ob) (simp_all add: trend_step_def monthKey_of_def cong: if_cong)
  then show ?thesis
    by (simp add: trendArray_def)
qed

text \<open>
  Claim C6. Every bucket of the trend counts in \<^verbatim>\<open>total_laporan\<close> the records of
  its month, in \<^verbatim>\<open>approved\<close> those of them with status \<^verbatim>\<open>approved\<close> or
  \<^verbatim>\<open>completed\<close>, in \<^verbatim>\<open>rejected\<close> those with status \<^verbatim>\<open>rejected\<close> or
  \<^verbatim>\<open>system_rejected\<close>; a record of any other status counts towards the total only.
  Hence approved plus rejected never exceeds the total of a bucket, and the totals of all
  buckets add up to the number of input records.
\<close>

theorem trend_counts:
  "(\<forall>row\<in>set (trendData (generateTrendData monthShort rs st)).
      total_laporan row = length (filter (\<lambda>r. monthKey_of monthShort r = month row) rs)
      \<and> approved row = length (filter (\<lambda>r. monthKey_of monthShort r = month row \<and>
            (status r = ''approved'' \<or> status r = ''completed'')) rs)
      \<and> rejected row = length (filter (\<lambda>r. monthKey_of monthShort r = month row \<and>
            (status r = ''rejected'' \<or> status r = ''system_rejected'')) rs)
      \<and> approved row + rejected row \<le> total_laporan row)
   \<and> sum_list (map total_laporan (trendData (generateTrendData monthShort rs st))) = length rs"
proof -
  have out: "trendData (generateTrendData monthShort rs st) = trendArray monthShort rs"
    by (simp add: generateTrendData_def)
  have le: "length (filter (\<lambda>r. P r \<and> (status r = ''approved'' \<or> status r = ''completed'')) rs)
          + length (filter (\<lambda>r. P r \<and> (status r = ''rejected'' \<or> status r = ''system_rejected'')) rs)
          \<le> length (filter P rs)" for P
    by (induction rs) auto
  have rows: "total_laporan row = length (filter (\<lambda>r. monthKey_of monthShort r = month row) rs)
      \<and> approved row = length (filter (\<lambda>r. monthKey_of monthShort r = month row \<and>
            (status r = ''approved'' \<or> status r = ''completed'')) rs)
      \<and> rejected row = length (filter (\<lambda>r. monthKey_of monthShort r = month row \<and>
            (status r = ''rejected'' \<or> status r = ''system_rejected'')) rs)"
    if "row \<in> set (trendArray monthShort rs)" for row
    using that by (auto simp: trendArray_eq)
  have all: "\<forall>row\<in>set (trendArray monthShort rs).
      total_laporan row = length (filter (\<lambda>r. monthKey_of monthShort r = month row) rs)
      \<and> approved row = length (filter (\<lambda>r. monthKey_of monthShort r = month row \<and>
            (status r = ''approved'' \<or> status r = ''completed'')) rs)
      \<and> rejected row = length (filter (\<lambda>r. monthKey_of monthShort r = month row \<and>
            (status r = ''rejected'' \<or> status r = ''system_rejected'')) rs)
      \<and> approved row + rejected row \<le> total_laporan row"
  proof
    fix row
    assume "row \<in> set (trendArray monthShort rs)"
    from rows [OF this] le [of "\<lambda>r. monthKey_of monthShort r = month row"]
    show "total_laporan row = length (filter (\<lambda>r. monthKey_of monthShort r = month row) rs)
      \<and> approved row = length (filter (\<lambda>r. monthKey_of monthShort r = month row \<and>
            (status r = ''approved'' \<or> status r = ''completed'')) rs)
      \<and> rejected row = length (filter (\<lambda>r. monthKey_of monthShort r = month row \<and>
            (status r = ''rejected'' \<or> status r = ''system_rejected'')) rs)
      \<and> approved row + rejected row \<le> total_laporan row"
      by simp
  qed
  show ?thesis
    unfolding out by (rule conjI [OF all trend_total_sum])
qed

theorem trend_counts_witness:
  "trendData (generateTrendData month_short_id trend_example initial_state) =
     [\<lparr>month = ''Mar'', total_laporan = 2, approved = 1, rejected = 1\<rparr>,
      \<lparr>month = ''Jan'', total_laporan = 2, approved = 1, rejected = 0\<rparr>]
   \<and> length (filter (\<lambda>r. monthKey_of month_short_id r = ''Jan'') trend_example) = 2
   \<and> length (filter (\<lambda>r. monthKey_of month_short_id r = ''Jan'' \<and>
         (status r = ''rejected'' \<or> status r = ''system_rejected'')) trend_example) = 0
   \<and> sum_list (map total_laporan
         (trendData (generateTrendData month_short_id trend_example initial_state))) = 4"
proof -
  let ?out = "trendData (generateTrendData month_short_id trend_example initial_state)"
  let ?row = "\<lparr>month = ''Jan'', total_laporan = 2, approved = 1, rejected = 0\<rparr>"
  have ev: "?out =
     [\<lparr>month = ''Mar'', total_laporan = 2, approved = 1, rejected = 1\<rparr>, ?row]"
    by code_simp
  have len: "length trend_example = 4"
    by (simp add: trend_example_def)
  have mem: "?row \<in> set ?out"
    by (simp add: ev)
  note inst = trend_counts [of month_short_id trend_example initial_state]
  from inst [THEN conjunct1, THEN bspec, OF mem] inst [THEN conjunct2] len ev
  show ?thesis by simp
qed

lemma month_short_id_plain: "\<not> is_array_index (month_short_id m)"
proof -
  let ?names = "[''Jan'', ''Feb'', ''Mar'', ''Apr'', ''Mei'', ''Jun'',
      ''Jul'', ''Agu'', ''Sep'', ''Okt'', ''Nov'', ''Des'']"
  have "list_all (\<lambda>s. \<not> is_array_index s) ?names"
    by (simp add: is_array_index_def is_digit_def)
  moreover have "m mod 12 < length ?names"
    by simp
  ultimately have "\<not> is_array_index (?names ! (m mod 12))"
    unfolding list_all_length by blast
  then show ?thesis
    by (simp add: month_short_id_def)
qed

text \<open>
  Claim C7. A bucket is keyed by the month name alone: the year of a record plays no part,
  so records of equally named months of different years share one bucket. There is
  exactly one bucket per month name that occurs, and the buckets come in the order in
  which their months first occur in the input, not in calendar order. The month names of
  the locale are assumed not to be array indices (decimal numerals), which
  \<^verbatim>\<open>Object.entries\<close> would move to the front.
\<close>

theorem trend_buckets_by_month_name:
  assumes plain: "\<And>m. \<not> is_array_index (monthShort m)"
  shows "map month (trendData (generateTrendData monthShort rs st)) =
           first_seen (map (\<lambda>r. monthShort (getMonth (created_at r))) rs)
         \<and> distinct (map month (trendData (generateTrendData monthShort rs st)))
         \<and> (\<forall>r\<in>set rs.
               length (filter (\<lambda>row. month row = monthShort (getMonth (created_at r)))
                         (trendData (generateTrendData monthShort rs st))) = 1)
         \<and> generateTrendData monthShort (map (created_at_update (getFullYear_update f)) rs) st =
             generateTrendData monthShort rs st"
proof -
  let ?out = "trendData (generateTrendData monthShort rs st)"
  let ?keys = "first_seen (map (\<lambda>r. monthShort (getMonth (created_at r))) rs)"
  have out: "?out = trendArray monthShort rs"
    by (simp add: generateTrendData_def)
  have "list_all (\<lambda>k. \<not> is_array_index k) ?keys"
    using plain by (auto simp: list_all_iff set_first_seen)
  then have order: "own_key_order ?keys = ?keys"
    by (rule own_key_order_plain)
  have names: "map month ?out = ?keys"
    using order by (simp add: out trendArray_eq o_def monthKey_of_def [abs_def])
  have dist: "distinct (map month ?out)"
    by (simp only: names distinct_first_seen)
  have one: "length (filter (\<lambda>row. month row = monthShort (getMonth (created_at r))) ?out) = 1"
    if "r \<in> set rs" for r
  proof (rule filter_distinct_map_one [OF dist])
    show "monthShort (getMonth (created_at r)) \<in> set (map month ?out)"
      using that by (simp only: names set_first_seen) simp
  qed
  have years: "generateTrendData monthShort (map (created_at_update (getFullYear_update f)) rs) st =
             generateTrendData monthShort rs st"
    by (simp add: generateTrendData_def trendArray_years)
  from names dist one years show ?thesis
    by simp
qed

theorem trend_buckets_by_month_name_witness:
  "map month (trendData (generateTrendData month_short_id trend_example initial_state)) =
     [''Mar'', ''Jan'']
   \<and> map (\<lambda>r. (getFullYear (created_at r), getMonth (created_at r))) trend_example =
       [(2024, 2), (2024, 0), (2023, 2), (2023, 0)]
   \<and> length (filter (\<lambda>row. month row = ''Mar'')
         (trendData (generateTrendData month_short_id trend_example initial_state))) = 1"
proof -
  let ?out = "trendData (generateTrendData month_short_id trend_example initial_state)"
  let ?r = "report_of (Some ''SBU Jawa Barat'') (Some ''media-sosial'') None
              ''system_rejected'' 2023 2"
  have keys: "first_seen (map (\<lambda>r. month_short_id (getMonth (created_at r))) trend_example) =
      [''Mar'', ''Jan'']"
    by code_simp
  have dates: "map (\<lambda>r. (getFullYear (created_at r), getMonth (created_at r))) trend_example =
       [(2024, 2), (2024, 0), (2023, 2), (2023, 0)]"
    by (simp add: trend_example_def report_of_def)
  have r: "?r \<in> set trend_example"
    by (simp add: trend_example_def)
  have key: "month_short_id (getMonth (created_at ?r)) = ''Mar''"
    by (simp add: month_short_id_def report_of_def)
  note inst = trend_buckets_by_month_name [of month_short_id trend_example initial_state id,
      OF month_short_id_plain]
  from inst have order: "map month ?out = [''Mar'', ''Jan'']"
    by (simp add: keys)
  from inst have "\<forall>r\<in>set trend_example.
      length (filter (\<lambda>row. month row = month_short_id (getMonth (created_at r))) ?out) = 1"
    by blast
  from this r have one: "length (filter (\<lambda>row. month row = ''Mar'') ?out) = 1"
    unfolding key [symmetric] by blast
  from order dates one show ?thesis
    by blast
qed

section \<open>The leaderboard builder\<close>

















text \<open>
  Every unit of the leaderboard has a score: the division by \<^verbatim>\<open>data.scores.length\<close> is
  never a division by zero.
\<close>

lemma counted_scores_nonempty:
  assumes "u \<in> set (counted_units rs)"
  shows "counted_scores rs u \<noteq> []"
proof -
  from assms obtain r where r: "r \<in> set rs" "counted_unit r = Some u"
    by (auto simp: counted_units_def set_map_filter set_own_key_order set_first_seen)
  then obtain y where y: "calculated_score r = Some y"
    by (cases "calculated_score r") (auto simp: counted_unit_def falsy_number_def split: if_splits)
  with r have "y \<in> set (counted_scores rs u)"
    by (auto simp: counted_scores_def set_map_filter)
  then show ?thesis by auto
qed









text \<open>
  Claim C3 at a failing input: a record whose score is present and equal to \<open>0\<close> is left
  out of the means. The present scores of the unit are \<open>0\<close> and \<open>100\<close>, with mean
  \<open>50\<close>; the leaderboard and the comparison cell both show \<open>100\<close>.
\<close>

theorem zero_score_excluded:
  "map score (leaderboardData (generateLeaderboardData (\<lambda>i. 0) zero_score_example initial_state))
     = [100]
   \<and> performanceComparisonData (generatePerformanceData zero_score_example initial_state) =
     [[(''indicator'', Str ''siaran-pers''), (''SBU Jawa Barat'', Num 100),
       (''rata_rata'', Num 100)]]
   \<and> List.map_filter calculated_score zero_score_example = [0, 100]"
  by code_simp

section \<open>Dependence on the input only\<close>




section \<open>The comparison builder\<close>













































section \<open>Rounding of the outputs\<close>



end
